theory Spec2Isabelle
  imports Main
begin

section \<open>SprintSync client: the state handlers of App.js\<close>

text \<open>
  The development embeds the event handlers of the \<open>App\<close> component (src/src/App.js)
  as functions on an explicit state. The React state variables, the browser's
  \<open>localStorage\<close>, the console and the backend are fields of one record; a handler
  takes the state before the event and returns the state after it.

  An awaited call of \<open>axios\<close> asks the backend, which is a parameter of the model:
  a function \<open>respond\<close> from the backend's state and a request to the outcome
  (a rejection or the response's data) and the backend's next state. Every request
  sent is appended to the field \<open>sent\<close>.

  A handler is run together with the continuation it starts (\<open>fetchTasks()\<close> called
  without \<open>await\<close>) until nothing is pending, before the next event is taken:
  overlapping handlers are outside the model, and so the \<open>tasks\<close> a handler's
  closure holds is the \<open>tasks\<close> of the state it starts from.
\<close>

subsection \<open>JavaScript values\<close>

text \<open>
  Response data is parsed JSON; \<open>JUndefined\<close> is what reading a missing property
  gives. An object is its list of own properties, in order. Numbers are integers in
  the model.
\<close>

datatype json =
    JUndefined
  | JNull
  | JBool bool
  | JNum int
  | JStr string
  | JArr "json list"
  | JObj "(string \<times> json) list"

datatype js_error = TypeError | AxiosError

text \<open>The conversion to boolean used by \<open>||\<close>, \<open>&&\<close>, \<open>!\<close> and \<open>if\<close>.\<close>

fun truthy :: "json \<Rightarrow> bool" where
  "truthy JUndefined = False"
| "truthy JNull = False"
| "truthy (JBool b) = b"
| "truthy (JNum n) = (n \<noteq> 0)"
| "truthy (JStr s) = (s \<noteq> [])"
| "truthy (JArr xs) = True"
| "truthy (JObj kv) = True"

text \<open>
  \<open>a === b\<close>. Primitives are equal when they have the same type and value. Arrays
  and objects are compared by identity in JavaScript; the model has no identities, and
  treats an array or object as different from any value it is compared with (the
  values compared by the program are task ids and status strings).
\<close>

fun strict_eq :: "json \<Rightarrow> json \<Rightarrow> bool" where
  "strict_eq JUndefined JUndefined = True"
| "strict_eq JNull JNull = True"
| "strict_eq (JBool a) (JBool b) = (a = b)"
| "strict_eq (JNum a) (JNum b) = (a = b)"
| "strict_eq (JStr a) (JStr b) = (a = b)"
| "strict_eq _ _ = False"

text \<open>
  \<open>v.k\<close> for the keys the program reads (\<open>results\<close>, \<open>id\<close>, \<open>status\<close>,
  \<open>username\<close>), none of which a built-in prototype defines: reading from
  \<open>undefined\<close> or \<open>null\<close> throws a TypeError, an object gives its own property or
  \<open>undefined\<close>, every other value gives \<open>undefined\<close>.
\<close>

fun get_prop :: "json \<Rightarrow> string \<Rightarrow> js_error + json" where
  "get_prop JUndefined k = Inl TypeError"
| "get_prop JNull k = Inl TypeError"
| "get_prop (JObj kv) k = Inr (case map_of kv k of None \<Rightarrow> JUndefined | Some v \<Rightarrow> v)"
| "get_prop _ k = Inr JUndefined"

text \<open>\<open>a || b\<close> on values already computed.\<close>

definition js_or :: "json \<Rightarrow> json \<Rightarrow> json" where
  "js_or a b = (if truthy a then a else b)"

text \<open>The decimal numeral of an array index, as a property key.\<close>

function show_nat :: "nat \<Rightarrow> string" where
  "show_nat n =
     (if n < 10 then [char_of (48 + n)]
      else show_nat (n div 10) @ [char_of (48 + n mod 10)])"
  by pat_completeness auto
termination
  by (relation "measure id") auto

text \<open>
  The own enumerable properties that \<open>{...v}\<close> copies: those of an object, the
  indexed elements of an array, the indexed characters of a string, and none for any
  other value.
\<close>

fun spread :: "json \<Rightarrow> (string \<times> json) list" where
  "spread (JObj kv) = kv"
| "spread (JArr xs) = zip (map show_nat [0..<length xs]) xs"
| "spread (JStr s) = zip (map show_nat [0..<length s]) (map (\<lambda>c. JStr [c]) s)"
| "spread _ = []"

text \<open>
  Writing property \<open>k\<close> in an object literal after a spread: an existing property
  keeps its place and takes the new value, a new one is added at the end.
\<close>

fun assign :: "string \<Rightarrow> json \<Rightarrow> (string \<times> json) list \<Rightarrow> (string \<times> json) list" where
  "assign k v [] = [(k, v)]"
| "assign k v (p # ps) = (if fst p = k then (k, v) # ps else p # assign k v ps)"

text \<open>
  \<open>xs.map(f)\<close> where \<open>f\<close> may throw: the first exception ends the traversal.
  A value that is not an array has no \<open>map\<close> method (parsed JSON holds no
  functions), so the call throws a TypeError.
\<close>

fun array_map :: "(json \<Rightarrow> js_error + json) \<Rightarrow> json list \<Rightarrow> js_error + json list" where
  "array_map f [] = Inr []"
| "array_map f (x # xs) =
     (case f x of
        Inl e \<Rightarrow> Inl e
      | Inr y \<Rightarrow> (case array_map f xs of Inl e \<Rightarrow> Inl e | Inr ys \<Rightarrow> Inr (y # ys)))"

fun js_map :: "(json \<Rightarrow> js_error + json) \<Rightarrow> json \<Rightarrow> js_error + json" where
  "js_map f (JArr xs) = (case array_map f xs of Inl e \<Rightarrow> Inl e | Inr ys \<Rightarrow> Inr (JArr ys))"
| "js_map f _ = Inl TypeError"

subsection \<open>Requests and the application state\<close>

datatype http_method = GET | POST | PUT | PATCH | DELETE

text \<open>
  The URLs the program builds; a template literal's parameter is kept as the value
  interpolated.
  \<^item> \<open>TasksTasks\<close>: \<^verbatim>\<open>/tasks/tasks/\<close>
  \<^item> \<open>TasksTasksId i\<close>: \<^verbatim>\<open>/tasks/tasks/${i}/\<close>
  \<^item> \<open>TasksIdStatus i\<close>: \<^verbatim>\<open>/tasks/${i}/status/\<close>
  \<^item> \<open>TasksAiDailyPlan\<close>: \<^verbatim>\<open>/tasks/ai/daily_plan/\<close>
\<close>

datatype url = TasksTasks | TasksTasksId json | TasksIdStatus json | TasksAiDailyPlan

record request =
  req_method :: http_method
  req_url :: url
  req_data :: json
  req_authorization :: "string option"

record 'srv app =
  tasks :: json
  showModal :: bool
  editingTask :: json
  aiSuggestion :: json
  loading :: bool
  user :: json
  localStorage :: "string \<rightharpoonup> string"
  console :: "string list"
  sent :: "request list"
  server :: 'srv

type_synonym 'srv backend = "'srv \<Rightarrow> request \<Rightarrow> (js_error + json) \<times> 'srv"

text \<open>
  The request interceptor (lines 8-14): the access token, when \<open>localStorage\<close> holds
  a non-empty one, is sent as the bearer authorization.
\<close>

definition interceptor :: "(string \<rightharpoonup> string) \<Rightarrow> string option" where
  "interceptor store =
     (case store ''accessToken'' of
        None \<Rightarrow> None
      | Some token \<Rightarrow> (if token \<noteq> [] then Some (''Bearer '' @ token) else None))"

definition mk_request :: "'srv app \<Rightarrow> http_method \<Rightarrow> url \<Rightarrow> json \<Rightarrow> request" where
  "mk_request s m u d =
     \<lparr>req_method = m, req_url = u, req_data = d,
      req_authorization = interceptor (localStorage s)\<rparr>"

text \<open>
  An awaited \<open>axios\<close> call: the request is recorded, the backend answers and moves
  on. \<open>Inl\<close> is the rejected promise, \<open>Inr d\<close> a response with \<open>response.data = d\<close>.
\<close>

definition axios ::
  "'srv backend \<Rightarrow> http_method \<Rightarrow> url \<Rightarrow> json \<Rightarrow> 'srv app \<Rightarrow> (js_error + json) \<times> 'srv app" where
  "axios respond m u d s =
     (let req = mk_request s m u d;
          answer = respond (server s) req
      in (fst answer, s\<lparr>sent := sent s @ [req], server := snd answer\<rparr>))"

definition console_error :: "string \<Rightarrow> 'srv app \<Rightarrow> 'srv app" where
  "console_error msg s = s\<lparr>console := console s @ [msg]\<rparr>"

subsection \<open>The handlers\<close>

text \<open>\<open>fetchTasks\<close> (lines 34-41).\<close>

definition fetchTasks :: "'srv backend \<Rightarrow> 'srv app \<Rightarrow> 'srv app" where
  "fetchTasks respond s =
     (case axios respond GET TasksTasks JUndefined s of
        (Inl e, s1) \<Rightarrow> console_error ''Error fetching tasks:'' s1
      | (Inr d, s1) \<Rightarrow>
          (case get_prop d ''results'' of
             Inl e \<Rightarrow> console_error ''Error fetching tasks:'' s1
           | Inr r \<Rightarrow> s1\<lparr>tasks := js_or r d\<rparr>))"

text \<open>\<open>handleLogout\<close> (lines 66-71).\<close>

definition handleLogout :: "'srv app \<Rightarrow> 'srv app" where
  "handleLogout s =
     s\<lparr>localStorage := (localStorage s)(''accessToken'' := None, ''refreshToken'' := None),
       user := JNull,
       tasks := JArr []\<rparr>"

text \<open>
  \<open>handleStatusChange\<close> (lines 73-83). \<open>patch_task\<close> is the function given to
  \<open>tasks.map\<close>.
\<close>

definition patch_task :: "json \<Rightarrow> json \<Rightarrow> json \<Rightarrow> js_error + json" where
  "patch_task taskId newStatus task =
     (case get_prop task ''id'' of
        Inl e \<Rightarrow> Inl e
      | Inr i \<Rightarrow>
          Inr (if strict_eq i taskId
               then JObj (assign ''status'' newStatus (spread task))
               else task))"

definition handleStatusChange :: "'srv backend \<Rightarrow> json \<Rightarrow> json \<Rightarrow> 'srv app \<Rightarrow> 'srv app" where
  "handleStatusChange respond taskId newStatus s =
     (case axios respond PATCH (TasksIdStatus taskId) (JObj [(''status'', newStatus)]) s of
        (Inl e, s1) \<Rightarrow> console_error ''Error updating task status:'' s1
      | (Inr d, s1) \<Rightarrow>
          (case js_map (patch_task taskId newStatus) (tasks s) of
             Inl e \<Rightarrow> console_error ''Error updating task status:'' s1
           | Inr ts \<Rightarrow> s1\<lparr>tasks := ts\<rparr>))"

text \<open>\<open>handleSaveTask\<close> (lines 85-98).\<close>

definition save_request :: "'srv backend \<Rightarrow> json \<Rightarrow> 'srv app \<Rightarrow> (js_error + json) \<times> 'srv app" where
  "save_request respond taskData s =
     (if truthy (editingTask s)
      then (case get_prop (editingTask s) ''id'' of
              Inl e \<Rightarrow> (Inl e, s)
            | Inr i \<Rightarrow> axios respond PUT (TasksTasksId i) taskData s)
      else axios respond POST TasksTasks taskData s)"

definition handleSaveTask :: "'srv backend \<Rightarrow> json \<Rightarrow> 'srv app \<Rightarrow> 'srv app" where
  "handleSaveTask respond taskData s =
     (case save_request respond taskData s of
        (Inl e, s1) \<Rightarrow> console_error ''Error saving task:'' s1
      | (Inr d, s1) \<Rightarrow> fetchTasks respond (s1\<lparr>showModal := False, editingTask := JNull\<rparr>))"

text \<open>
  \<open>handleDeleteTask\<close> (lines 100-109); \<open>confirmed\<close> is the answer to
  \<open>window.confirm\<close>.
\<close>

definition handleDeleteTask :: "'srv backend \<Rightarrow> bool \<Rightarrow> json \<Rightarrow> 'srv app \<Rightarrow> 'srv app" where
  "handleDeleteTask respond confirmed taskId s =
     (if confirmed
      then (case axios respond DELETE (TasksTasksId taskId) JUndefined s of
              (Inl e, s1) \<Rightarrow> console_error ''Error deleting task:'' s1
            | (Inr d, s1) \<Rightarrow> fetchTasks respond s1)
      else s)"

text \<open>\<open>handleAiSuggestion\<close> (lines 111-125).\<close>

definition fallback_suggestion :: json where
  "fallback_suggestion =
     JObj [(''plan'', JStr ''Could not generate plan. Please try again later.''),
           (''estimated_hours'', JNum 0)]"

definition handleAiSuggestion :: "'srv backend \<Rightarrow> 'srv app \<Rightarrow> 'srv app" where
  "handleAiSuggestion respond s =
     (let s2 =
        (case axios respond POST TasksAiDailyPlan JUndefined (s\<lparr>loading := True\<rparr>) of
           (Inl e, s1) \<Rightarrow>
             (console_error ''Error fetching AI suggestion:'' s1)
               \<lparr>aiSuggestion := fallback_suggestion\<rparr>
         | (Inr d, s1) \<Rightarrow> s1\<lparr>aiSuggestion := d\<rparr>)
      in s2\<lparr>loading := False\<rparr>)"

text \<open>The close button of the suggestion panel (line 168).\<close>

definition dismiss :: "'srv app \<Rightarrow> 'srv app" where
  "dismiss s = s\<lparr>aiSuggestion := JNull\<rparr>"

subsection \<open>Rendering\<close>

text \<open>
  What \<open>App\<close> returns (lines 127-211): the login form alone when \<open>user\<close> is falsy,
  the main view otherwise. The content of the main view is not modelled.
\<close>

datatype view = LoginForm | MainView

definition App :: "'srv app \<Rightarrow> view" where
  "App s = (if \<not> truthy (user s) then LoginForm else MainView)"

text \<open>
  \<open>statusOptions\<close> and \<open>getStatusInfo\<close> of \<open>TaskItem\<close> (lines 215-223). The
  field \<open>value\<close> of an option is written \<open>value'\<close>. Every option is an object, hence
  truthy: \<open>find(...) || statusOptions[0]\<close> takes the second operand exactly when
  \<open>find\<close> returns \<open>undefined\<close>.
\<close>

record status_option =
  value' :: string
  label :: string
  color :: string

definition statusOptions :: "status_option list" where
  "statusOptions =
     [\<lparr>value' = ''TO_DO'', label = ''To Do'', color = ''#ffbe0b''\<rparr>,
      \<lparr>value' = ''IN_PROGRESS'', label = ''In Progress'', color = ''#3a86ff''\<rparr>,
      \<lparr>value' = ''DONE'', label = ''Done'', color = ''#06d6a0''\<rparr>]"

definition getStatusInfo :: "json \<Rightarrow> status_option" where
  "getStatusInfo statusValue =
     (case find (\<lambda>option. strict_eq (JStr (value' option)) statusValue) statusOptions of
        Some option \<Rightarrow> option
      | None \<Rightarrow> statusOptions ! 0)"

subsection \<open>The state at start, and a scripted backend for the examples\<close>

text \<open>
  The initial values of the \<open>useState\<close> calls (lines 17-22), in a browser that
  stores no token, before any request.
\<close>

definition initial :: "'srv \<Rightarrow> 'srv app" where
  "initial srv =
     \<lparr>tasks = JArr [], showModal = False, editingTask = JNull, aiSuggestion = JNull,
      loading = False, user = JNull, localStorage = Map.empty, console = [], sent = [],
      server = srv\<rparr>"

text \<open>
  A backend for the examples: it answers the requests it receives with the outcomes
  of a script, in order, and rejects every request once the script is used up.
\<close>

fun replay :: "(js_error + json) list backend" where
  "replay [] req = (Inl AxiosError, [])"
| "replay (r # rs) req = (r, rs)"

subsection \<open>Vocabulary of the statements\<close>

text \<open>A task record is an object; it has id \<open>taskId\<close> when the test of line 78 holds.\<close>

definition is_record :: "json \<Rightarrow> bool" where
  "is_record t = (case t of JObj kv \<Rightarrow> True | _ \<Rightarrow> False)"

definition has_id :: "json \<Rightarrow> json \<Rightarrow> bool" where
  "has_id t taskId = (case get_prop t ''id'' of Inl e \<Rightarrow> False | Inr i \<Rightarrow> strict_eq i taskId)"

text \<open>
  The collection a list response carries, in the words of the specification: the
  response is a bare sequence, or a paginated wrapper exposing a \<open>results\<close> field.
\<close>

definition listed_collection :: "json \<Rightarrow> json option" where
  "listed_collection d =
     (case d of
        JArr ts \<Rightarrow> Some (JArr ts)
      | JObj kv \<Rightarrow> (case map_of kv ''results'' of Some (JArr ts) \<Rightarrow> Some (JArr ts) | _ \<Rightarrow> None)
      | _ \<Rightarrow> None)"

subsection \<open>Example states\<close>

text \<open>
  The scenario of the specification for a status change: the collection
  \<open>[{id: 5, status: "TO_DO"}, {id: 7, status: "DONE"}]\<close>, and a backend that accepts
  the next request.
\<close>

definition two_tasks :: "json list" where
  "two_tasks =
     [JObj [(''id'', JNum 5), (''status'', JStr ''TO_DO'')],
      JObj [(''id'', JNum 7), (''status'', JStr ''DONE'')]]"

definition board :: "(js_error + json) list app" where
  "board = (initial [Inr (JObj [])])\<lparr>tasks := JArr two_tasks\<rparr>"

text \<open>Two tasks as the backend sends them, and a paginated list response.\<close>

definition T1 :: json where
  "T1 = JObj [(''id'', JNum 1), (''title'', JStr ''Write report''),
              (''description'', JStr []), (''status'', JStr ''TO_DO''),
              (''total_minutes'', JNum 30)]"

definition T2 :: json where
  "T2 = JObj [(''id'', JNum 2), (''title'', JStr ''Review''),
              (''description'', JStr ''Second pass''), (''status'', JStr ''IN_PROGRESS''),
              (''total_minutes'', JNum 45)]"

definition page :: json where
  "page = JObj [(''count'', JNum 2), (''next'', JNull), (''results'', JArr [T1, T2])]"

definition draft :: json where
  "draft = JObj [(''title'', JStr ''Review''), (''description'', JStr ''Second pass''),
                 (''status'', JStr ''IN_PROGRESS''), (''total_minutes'', JNum 45)]"

text \<open>
  The form open in create mode, with a backend that accepts the new task and then
  lists both tasks in a paginated wrapper.
\<close>

definition creating :: "(js_error + json) list app" where
  "creating = (initial [Inr T2, Inr page])\<lparr>tasks := JArr [T1], showModal := True\<rparr>"

text \<open>
  The form open on \<open>T1\<close>, with a backend that accepts the update and then lists
  the tasks as a bare array.
\<close>

definition editing :: "(js_error + json) list app" where
  "editing =
     (initial [Inr T1, Inr (JArr [T1, T2])])
       \<lparr>tasks := JArr [T1, T2], showModal := True, editingTask := T1\<rparr>"

text \<open>The form open on \<open>T1\<close>, with a backend that rejects the next request.\<close>

definition rejected_edit :: "(js_error + json) list app" where
  "rejected_edit =
     (initial [Inl AxiosError])\<lparr>tasks := JArr [T1, T2], showModal := True, editingTask := T1\<rparr>"

text \<open>
  Both tasks listed, with a backend that accepts a deletion (with an empty body) and
  then lists the task left.
\<close>

definition deleting :: "(js_error + json) list app" where
  "deleting = (initial [Inr (JStr []), Inr (JArr [T1])])\<lparr>tasks := JArr [T1, T2]\<rparr>"

text \<open>List responses: a paginated wrapper, and wrappers whose \<open>results\<close> is \<open>null\<close>.\<close>

definition paged :: "(js_error + json) list app" where
  "paged = initial [Inr page]"

definition null_results :: json where
  "null_results = JObj [(''results'', JNull)]"

definition null_paged :: "(js_error + json) list app" where
  "null_paged = (initial [Inr null_results])\<lparr>tasks := JArr [T1]\<rparr>"

definition empty_page :: json where
  "empty_page = JObj [(''count'', JNum 0), (''next'', JNull), (''results'', JNull)]"

definition empty_paged :: "(js_error + json) list app" where
  "empty_paged = (initial [Inr empty_page])\<lparr>tasks := JArr [T1]\<rparr>"

text \<open>Plan requests: one the backend answers, one it rejects.\<close>

definition plan :: json where
  "plan = JObj [(''plan'', JStr ''Start with the report.''), (''estimated_hours'', JNum 2)]"

definition planned :: "(js_error + json) list app" where
  "planned = initial [Inr plan]"

definition unplanned :: "(js_error + json) list app" where
  "unplanned = initial [Inl AxiosError]"

section \<open>Properties\<close>

subsection \<open>Auxiliary facts\<close>

lemma map_of_assign: "map_of (assign k v kv) = (map_of kv)(k \<mapsto> v)"
  by (induction kv) auto

lemma get_prop_assign_same: "get_prop (JObj (assign k v kv)) k = Inr v"
  by (simp add: map_of_assign)

lemma get_prop_assign_other:
  "k' \<noteq> k \<Longrightarrow> get_prop (JObj (assign k v kv)) k' = get_prop (JObj kv) k'"
  by (simp add: map_of_assign)

lemma array_map_patch_task:
  "\<forall>t \<in> set ts. is_record t \<Longrightarrow>
   array_map (patch_task taskId st) ts =
     Inr (map (\<lambda>t. if has_id t taskId then JObj (assign ''status'' st (spread t)) else t) ts)"
  by (induction ts) (auto simp: patch_task_def has_id_def is_record_def split: json.splits)

lemma axios_result:
  "axios respond m u d s =
     (fst (respond (server s) (mk_request s m u d)),
      s\<lparr>sent := sent s @ [mk_request s m u d],
        server := snd (respond (server s) (mk_request s m u d))\<rparr>)"
  by (simp add: axios_def Let_def)

lemma mk_request_frame [simp]:
  "mk_request (s\<lparr>sent := x\<rparr>) m u d = mk_request s m u d"
  "mk_request (s\<lparr>server := y\<rparr>) m u d = mk_request s m u d"
  "mk_request (s\<lparr>tasks := t\<rparr>) m u d = mk_request s m u d"
  "mk_request (s\<lparr>showModal := b\<rparr>) m u d = mk_request s m u d"
  "mk_request (s\<lparr>editingTask := e\<rparr>) m u d = mk_request s m u d"
  "mk_request (s\<lparr>loading := l\<rparr>) m u d = mk_request s m u d"
  by (simp_all add: mk_request_def)

lemma fetchTasks_success:
  assumes "fst (respond (server s) (mk_request s GET TasksTasks JUndefined)) = Inr d"
    and "get_prop d ''results'' = Inr r"
  shows "fetchTasks respond s =
           s\<lparr>sent := sent s @ [mk_request s GET TasksTasks JUndefined],
             server := snd (respond (server s) (mk_request s GET TasksTasks JUndefined)),
             tasks := js_or r d\<rparr>"
  using assms by (simp add: fetchTasks_def axios_result)

lemma fetchTasks_frame:
  "showModal (fetchTasks respond s) = showModal s"
  "editingTask (fetchTasks respond s) = editingTask s"
  by (auto simp: fetchTasks_def axios_result console_error_def split: sum.splits)

lemma listed_collection_js_or:
  assumes "listed_collection d = Some c"
  shows "\<exists>r. get_prop d ''results'' = Inr r \<and> js_or r d = c"
  using assms
  by (auto simp: listed_collection_def js_or_def split: json.splits option.splits)

lemma handleStatusChange_success:
  assumes "tasks s = JArr ts"
    and "\<forall>t \<in> set ts. is_record t"
    and "fst (respond (server s)
           (mk_request s PATCH (TasksIdStatus taskId) (JObj [(''status'', st)]))) = Inr d"
  shows "handleStatusChange respond taskId st s =
           s\<lparr>sent := sent s @ [mk_request s PATCH (TasksIdStatus taskId) (JObj [(''status'', st)])],
             server := snd (respond (server s)
                (mk_request s PATCH (TasksIdStatus taskId) (JObj [(''status'', st)]))),
             tasks := JArr (map (\<lambda>t. if has_id t taskId
                                       then JObj (assign ''status'' st (spread t)) else t) ts)\<rparr>"
  using assms by (simp add: handleStatusChange_def axios_result array_map_patch_task)

subsection \<open>Status change patches one record in place\<close>

text \<open>
  Claim C1. Let the task collection be an array of records in which exactly one
  record, at index \<open>i\<close>, has id \<open>taskId\<close>. After \<open>handleStatusChange taskId newStatus\<close>
  whose PATCH request succeeds, the collection is an array of the same length in
  which the record at \<open>i\<close> has \<open>status = newStatus\<close> and every other field as
  before, every other record is as before, and the only request sent is the PATCH
  request: no list request follows it.
\<close>

theorem handleStatusChange_patches_one:
  assumes "tasks s = JArr ts"
    and "\<forall>t \<in> set ts. is_record t"
    and "i < length ts"
    and "has_id (ts ! i) taskId"
    and "\<forall>j < length ts. j \<noteq> i \<longrightarrow> \<not> has_id (ts ! j) taskId"
    and "fst (respond (server s)
           (mk_request s PATCH (TasksIdStatus taskId) (JObj [(''status'', newStatus)]))) = Inr d"
  shows "\<exists>ts'. tasks (handleStatusChange respond taskId newStatus s) = JArr ts'
           \<and> length ts' = length ts
           \<and> is_record (ts' ! i)
           \<and> get_prop (ts' ! i) ''status'' = Inr newStatus
           \<and> (\<forall>k. k \<noteq> ''status'' \<longrightarrow> get_prop (ts' ! i) k = get_prop (ts ! i) k)
           \<and> (\<forall>j < length ts. j \<noteq> i \<longrightarrow> ts' ! j = ts ! j)
           \<and> sent (handleStatusChange respond taskId newStatus s) =
               sent s @ [mk_request s PATCH (TasksIdStatus taskId) (JObj [(''status'', newStatus)])]"
proof -
  let ?g = "\<lambda>t. if has_id t taskId then JObj (assign ''status'' newStatus (spread t)) else t"
  let ?s' = "handleStatusChange respond taskId newStatus s"
  have eq: "tasks ?s' = JArr (map ?g ts)"
    and log: "sent ?s' =
      sent s @ [mk_request s PATCH (TasksIdStatus taskId) (JObj [(''status'', newStatus)])]"
    using handleStatusChange_success
      [where s = s and respond = respond and taskId = taskId and st = newStatus,
       OF assms(1) assms(2) assms(6)]
    by simp_all
  from assms(2) assms(3) have "is_record (ts ! i)" by simp
  then obtain kv where kv: "ts ! i = JObj kv"
    by (auto simp: is_record_def split: json.splits)
  have at_i: "map ?g ts ! i = JObj (assign ''status'' newStatus kv)"
    using assms(3) assms(4) kv by simp
  have rest: "\<forall>j < length ts. j \<noteq> i \<longrightarrow> map ?g ts ! j = ts ! j"
    using assms(5) by simp
  have fields: "\<forall>k. k \<noteq> ''status'' \<longrightarrow> get_prop (map ?g ts ! i) k = get_prop (ts ! i) k"
    unfolding at_i kv using get_prop_assign_other by blast
  have status: "get_prop (map ?g ts ! i) ''status'' = Inr newStatus"
    unfolding at_i by (rule get_prop_assign_same)
  have isrec: "is_record (map ?g ts ! i)"
    unfolding at_i by (simp add: is_record_def)
  show ?thesis
    using eq log rest fields status isrec by simp
qed

theorem handleStatusChange_patches_one_witness:
  "\<exists>ts'. tasks (handleStatusChange replay (JNum 5) (JStr ''DONE'') board) = JArr ts'
     \<and> length ts' = 2
     \<and> get_prop (ts' ! 0) ''status'' = Inr (JStr ''DONE'')
     \<and> get_prop (ts' ! 0) ''id'' = Inr (JNum 5)
     \<and> ts' ! 1 = JObj [(''id'', JNum 7), (''status'', JStr ''DONE'')]
     \<and> sent (handleStatusChange replay (JNum 5) (JStr ''DONE'') board) =
         [mk_request board PATCH (TasksIdStatus (JNum 5)) (JObj [(''status'', JStr ''DONE'')])]"
proof -
  have h1: "tasks board = JArr two_tasks"
    by (simp add: board_def)
  have h2: "\<forall>t \<in> set two_tasks. is_record t"
    by (simp add: two_tasks_def is_record_def)
  have h3: "0 < length two_tasks"
    by (simp add: two_tasks_def)
  have h4: "has_id (two_tasks ! 0) (JNum 5)"
    by (simp add: two_tasks_def has_id_def)
  have h5: "\<forall>j < length two_tasks. j \<noteq> 0 \<longrightarrow> \<not> has_id (two_tasks ! j) (JNum 5)"
    by (simp add: two_tasks_def has_id_def less_Suc_eq)
  have h6: "fst (replay (server board)
              (mk_request board PATCH (TasksIdStatus (JNum 5)) (JObj [(''status'', JStr ''DONE'')])))
            = Inr (JObj [])"
    by (simp add: board_def initial_def)
  from handleStatusChange_patches_one
         [where s = board and respond = replay and ts = two_tasks and i = 0,
          OF h1 h2 h3 h4 h5 h6]
  obtain ts' where
    t: "tasks (handleStatusChange replay (JNum 5) (JStr ''DONE'') board) = JArr ts'"
    and n: "length ts' = length two_tasks"
    and st: "get_prop (ts' ! 0) ''status'' = Inr (JStr ''DONE'')"
    and fields: "\<forall>k. k \<noteq> ''status'' \<longrightarrow> get_prop (ts' ! 0) k = get_prop (two_tasks ! 0) k"
    and others: "\<forall>j < length two_tasks. j \<noteq> 0 \<longrightarrow> ts' ! j = two_tasks ! j"
    and log: "sent (handleStatusChange replay (JNum 5) (JStr ''DONE'') board) =
      sent board @
        [mk_request board PATCH (TasksIdStatus (JNum 5)) (JObj [(''status'', JStr ''DONE'')])]"
    by blast
  have n': "length ts' = 2"
    using n by (simp add: two_tasks_def)
  have "get_prop (ts' ! 0) ''id'' = get_prop (two_tasks ! 0) ''id''"
    using fields by simp
  then have ident: "get_prop (ts' ! 0) ''id'' = Inr (JNum 5)"
    by (simp add: two_tasks_def)
  have "ts' ! 1 = two_tasks ! 1"
    using others by (simp add: two_tasks_def)
  then have second: "ts' ! 1 = JObj [(''id'', JNum 7), (''status'', JStr ''DONE'')]"
    by (simp add: two_tasks_def)
  have log': "sent (handleStatusChange replay (JNum 5) (JStr ''DONE'') board) =
      [mk_request board PATCH (TasksIdStatus (JNum 5)) (JObj [(''status'', JStr ''DONE'')])]"
    using log by (simp add: board_def initial_def)
  show ?thesis
    using t n' st ident second log' by blast
qed

text \<open>The scenario of the specification, computed.\<close>

lemma handleStatusChange_scenario:
  "tasks (handleStatusChange replay (JNum 5) (JStr ''DONE'') board) =
   JArr [JObj [(''id'', JNum 5), (''status'', JStr ''DONE'')],
         JObj [(''id'', JNum 7), (''status'', JStr ''DONE'')]]"
  by (simp add: handleStatusChange_def axios_result board_def initial_def two_tasks_def
      patch_task_def)

subsection \<open>Create, update and delete end in a full refresh\<close>

lemma refresh_after:
  assumes "server s1 = srv1"
    and "mk_request s1 GET TasksTasks JUndefined = q"
    and "respond srv1 q = (Inr l, srv2)"
    and "listed_collection l = Some c"
  shows "tasks (fetchTasks respond s1) = c"
proof -
  from assms(4) obtain r where r: "get_prop l ''results'' = Inr r" "js_or r l = c"
    using listed_collection_js_or by blast
  have "fst (respond (server s1) (mk_request s1 GET TasksTasks JUndefined)) = Inr l"
    using assms(1) assms(2) assms(3) by simp
  from fetchTasks_success [where respond = respond and s = s1, OF this r(1)] r(2) show ?thesis
    by simp
qed

lemma create_then_refresh:
  assumes "\<not> truthy (editingTask s)"
    and "respond (server s) (mk_request s POST TasksTasks taskData) = (Inr d, srv1)"
    and "respond srv1 (mk_request s GET TasksTasks JUndefined) = (Inr l, srv2)"
    and "listed_collection l = Some c"
  shows "tasks (handleSaveTask respond taskData s) = c"
proof -
  let ?s1 = "s\<lparr>sent := sent s @ [mk_request s POST TasksTasks taskData], server := srv1,
               showModal := False, editingTask := JNull\<rparr>"
  have "handleSaveTask respond taskData s = fetchTasks respond ?s1"
    using assms(1) assms(2) by (simp add: handleSaveTask_def save_request_def axios_result)
  moreover have "tasks (fetchTasks respond ?s1) = c"
    by (rule refresh_after [where respond = respond and ?srv1.0 = srv1, OF _ _ assms(3) assms(4)])
      simp_all
  ultimately show ?thesis
    by simp
qed

lemma update_then_refresh:
  assumes "truthy (editingTask s)"
    and "get_prop (editingTask s) ''id'' = Inr i"
    and "respond (server s) (mk_request s PUT (TasksTasksId i) taskData) = (Inr d, srv1)"
    and "respond srv1 (mk_request s GET TasksTasks JUndefined) = (Inr l, srv2)"
    and "listed_collection l = Some c"
  shows "tasks (handleSaveTask respond taskData s) = c"
proof -
  let ?s1 = "s\<lparr>sent := sent s @ [mk_request s PUT (TasksTasksId i) taskData], server := srv1,
               showModal := False, editingTask := JNull\<rparr>"
  have "handleSaveTask respond taskData s = fetchTasks respond ?s1"
    using assms(1) assms(2) assms(3)
    by (simp add: handleSaveTask_def save_request_def axios_result)
  moreover have "tasks (fetchTasks respond ?s1) = c"
    by (rule refresh_after [where respond = respond and ?srv1.0 = srv1, OF _ _ assms(4) assms(5)])
      simp_all
  ultimately show ?thesis
    by simp
qed

lemma delete_then_refresh:
  assumes "respond (server s) (mk_request s DELETE (TasksTasksId taskId) JUndefined) = (Inr d, srv1)"
    and "respond srv1 (mk_request s GET TasksTasks JUndefined) = (Inr l, srv2)"
    and "listed_collection l = Some c"
  shows "tasks (handleDeleteTask respond True taskId s) = c"
proof -
  let ?s1 = "s\<lparr>sent := sent s @ [mk_request s DELETE (TasksTasksId taskId) JUndefined],
               server := srv1\<rparr>"
  have "handleDeleteTask respond True taskId s = fetchTasks respond ?s1"
    using assms(1) by (simp add: handleDeleteTask_def axios_result)
  moreover have "tasks (fetchTasks respond ?s1) = c"
    by (rule refresh_after [where respond = respond and ?srv1.0 = srv1, OF _ _ assms(2) assms(3)])
      simp_all
  ultimately show ?thesis
    by simp
qed

text \<open>
  Claim C2. After a successful create (the form in create mode, the POST accepted),
  a successful update (the form in edit mode, the PUT accepted) or a successful
  delete (confirmed, the DELETE accepted), when the list request that follows returns
  a collection \<open>c\<close> (as a bare array or in a paginated wrapper), the local task
  collection is exactly \<open>c\<close>: it depends neither on the collection held before nor on
  the draft sent.
\<close>

theorem mutations_end_in_full_refresh:
  "(\<not> truthy (editingTask s)
      \<and> respond (server s) (mk_request s POST TasksTasks taskData) = (Inr d, srv1)
      \<and> respond srv1 (mk_request s GET TasksTasks JUndefined) = (Inr l, srv2)
      \<and> listed_collection l = Some c
      \<longrightarrow> tasks (handleSaveTask respond taskData s) = c)
   \<and> (truthy (editingTask s)
      \<and> get_prop (editingTask s) ''id'' = Inr i
      \<and> respond (server s) (mk_request s PUT (TasksTasksId i) taskData) = (Inr d, srv1)
      \<and> respond srv1 (mk_request s GET TasksTasks JUndefined) = (Inr l, srv2)
      \<and> listed_collection l = Some c
      \<longrightarrow> tasks (handleSaveTask respond taskData s) = c)
   \<and> (respond (server s) (mk_request s DELETE (TasksTasksId taskId) JUndefined) = (Inr d, srv1)
      \<and> respond srv1 (mk_request s GET TasksTasks JUndefined) = (Inr l, srv2)
      \<and> listed_collection l = Some c
      \<longrightarrow> tasks (handleDeleteTask respond True taskId s) = c)"
proof (intro conjI impI)
  assume "\<not> truthy (editingTask s)
      \<and> respond (server s) (mk_request s POST TasksTasks taskData) = (Inr d, srv1)
      \<and> respond srv1 (mk_request s GET TasksTasks JUndefined) = (Inr l, srv2)
      \<and> listed_collection l = Some c"
  then show "tasks (handleSaveTask respond taskData s) = c"
    using create_then_refresh [where respond = respond and s = s and ?srv1.0 = srv1] by simp
next
  assume "truthy (editingTask s)
      \<and> get_prop (editingTask s) ''id'' = Inr i
      \<and> respond (server s) (mk_request s PUT (TasksTasksId i) taskData) = (Inr d, srv1)
      \<and> respond srv1 (mk_request s GET TasksTasks JUndefined) = (Inr l, srv2)
      \<and> listed_collection l = Some c"
  then show "tasks (handleSaveTask respond taskData s) = c"
    using update_then_refresh [where respond = respond and s = s and ?srv1.0 = srv1] by simp
next
  assume "respond (server s) (mk_request s DELETE (TasksTasksId taskId) JUndefined) = (Inr d, srv1)
      \<and> respond srv1 (mk_request s GET TasksTasks JUndefined) = (Inr l, srv2)
      \<and> listed_collection l = Some c"
  then show "tasks (handleDeleteTask respond True taskId s) = c"
    using delete_then_refresh [where respond = respond and s = s and ?srv1.0 = srv1] by simp
qed

theorem mutations_end_in_full_refresh_witness:
  "tasks (handleSaveTask replay draft creating) = JArr [T1, T2]
   \<and> tasks (handleSaveTask replay draft editing) = JArr [T1, T2]
   \<and> tasks (handleDeleteTask replay True (JNum 2) deleting) = JArr [T1]"
proof -
  have create: "tasks (handleSaveTask replay draft creating) = JArr [T1, T2]"
  proof -
    have "\<not> truthy (editingTask creating)
        \<and> replay (server creating) (mk_request creating POST TasksTasks draft) = (Inr T2, [Inr page])
        \<and> replay [Inr page] (mk_request creating GET TasksTasks JUndefined) = (Inr page, [])
        \<and> listed_collection page = Some (JArr [T1, T2])"
      by (simp add: creating_def initial_def listed_collection_def page_def)
    with mutations_end_in_full_refresh
           [where s = creating and respond = replay and taskData = draft and d = T2
              and ?srv1.0 = "[Inr page]" and l = page and ?srv2.0 = "[]" and c = "JArr [T1, T2]"]
    show ?thesis by blast
  qed
  have update: "tasks (handleSaveTask replay draft editing) = JArr [T1, T2]"
  proof -
    have "truthy (editingTask editing)
        \<and> get_prop (editingTask editing) ''id'' = Inr (JNum 1)
        \<and> replay (server editing) (mk_request editing PUT (TasksTasksId (JNum 1)) draft)
            = (Inr T1, [Inr (JArr [T1, T2])])
        \<and> replay [Inr (JArr [T1, T2])] (mk_request editing GET TasksTasks JUndefined)
            = (Inr (JArr [T1, T2]), [])
        \<and> listed_collection (JArr [T1, T2]) = Some (JArr [T1, T2])"
      by (simp add: editing_def initial_def listed_collection_def T1_def)
    with mutations_end_in_full_refresh
           [where s = editing and respond = replay and taskData = draft and d = T1
              and i = "JNum 1" and ?srv1.0 = "[Inr (JArr [T1, T2])]" and l = "JArr [T1, T2]"
              and ?srv2.0 = "[]" and c = "JArr [T1, T2]"]
    show ?thesis by blast
  qed
  have delete: "tasks (handleDeleteTask replay True (JNum 2) deleting) = JArr [T1]"
  proof -
    have "replay (server deleting) (mk_request deleting DELETE (TasksTasksId (JNum 2)) JUndefined)
            = (Inr (JStr []), [Inr (JArr [T1])])
        \<and> replay [Inr (JArr [T1])] (mk_request deleting GET TasksTasks JUndefined)
            = (Inr (JArr [T1]), [])
        \<and> listed_collection (JArr [T1]) = Some (JArr [T1])"
      by (simp add: deleting_def initial_def listed_collection_def)
    with mutations_end_in_full_refresh
           [where s = deleting and respond = replay and taskId = "JNum 2" and d = "JStr []"
              and ?srv1.0 = "[Inr (JArr [T1])]" and l = "JArr [T1]" and ?srv2.0 = "[]"
              and c = "JArr [T1]"]
    show ?thesis by blast
  qed
  from create update delete show ?thesis
    by simp
qed

subsection \<open>What a list response puts in the collection\<close>

text \<open>
  Claim C3, as stated, fails. The claim lets the bare response value be used only
  when the \<open>results\<close> field is undefined. For the response \<open>{results: null}\<close> the
  field is \<open>null\<close>, not undefined, and the collection becomes the bare response
  value.
\<close>

theorem fetchTasks_fallback_only_if_undefined_counterexample:
  "\<not> (tasks (fetchTasks replay null_paged) = null_results
        \<longrightarrow> get_prop null_results ''results'' = Inr JUndefined)"
  by (simp add: fetchTasks_def axios_result null_paged_def null_results_def initial_def
      js_or_def)

text \<open>
  Claim C3, amended. For every successful list response whose data \<open>d\<close> is neither
  \<open>null\<close> nor undefined (so that \<open>d.results\<close> is read as \<open>r\<close>), \<open>fetchTasks\<close>
  replaces the whole local collection: by \<open>r\<close> when \<open>r\<close> is truthy, and by the bare
  response value \<open>d\<close> when \<open>r\<close> is falsy (undefined, \<open>null\<close>, \<open>false\<close>, \<open>0\<close> or the
  empty string). So a wrapper whose \<open>results\<close> is the array \<open>ts\<close> yields \<open>ts\<close>, and
  a bare array \<open>ts\<close> yields \<open>ts\<close>.
\<close>

theorem fetchTasks_results_or_data:
  assumes "fst (respond (server s) (mk_request s GET TasksTasks JUndefined)) = Inr d"
    and "get_prop d ''results'' = Inr r"
  shows "tasks (fetchTasks respond s) = (if truthy r then r else d)
       \<and> (r = JArr ts \<longrightarrow> tasks (fetchTasks respond s) = JArr ts)
       \<and> (d = JArr ts \<longrightarrow> tasks (fetchTasks respond s) = JArr ts)"
proof -
  have eq: "tasks (fetchTasks respond s) = js_or r d"
    using fetchTasks_success [where respond = respond and s = s, OF assms] by simp
  have bare: "d = JArr ts \<longrightarrow> r = JUndefined"
    using assms(2) by auto
  show ?thesis
    using eq bare by (auto simp: js_or_def)
qed

theorem fetchTasks_results_or_data_witness:
  "truthy (JArr [T1, T2]) \<and> tasks (fetchTasks replay paged) = JArr [T1, T2]"
proof -
  have h1: "fst (replay (server paged) (mk_request paged GET TasksTasks JUndefined)) = Inr page"
    by (simp add: paged_def initial_def)
  have h2: "get_prop page ''results'' = Inr (JArr [T1, T2])"
    by (simp add: page_def)
  have "tasks (fetchTasks replay paged) = (if truthy (JArr [T1, T2]) then JArr [T1, T2] else page)"
    using fetchTasks_results_or_data [where respond = replay and s = paged, OF h1 h2]
    by blast
  then show ?thesis
    by simp
qed

text \<open>The two scenarios of the specification, computed.\<close>

lemma fetchTasks_scenarios:
  "tasks (fetchTasks replay (initial [Inr (JObj [(''results'', JArr [T1, T2])])])) = JArr [T1, T2]"
  "tasks (fetchTasks replay (initial [Inr (JArr [T1])])) = JArr [T1]"
  by (simp_all add: fetchTasks_def axios_result initial_def js_or_def)

text \<open>
  Claim C9. When a successful list response is an object whose \<open>results\<close> field is
  present with a falsy value \<open>r\<close> (such as \<open>null\<close>), \<open>fetchTasks\<close> sets the
  collection to the whole response object, not to an empty list.
\<close>

theorem fetchTasks_falsy_results_keeps_wrapper:
  assumes "fst (respond (server s) (mk_request s GET TasksTasks JUndefined)) = Inr (JObj kv)"
    and "map_of kv ''results'' = Some r"
    and "\<not> truthy r"
  shows "tasks (fetchTasks respond s) = JObj kv \<and> tasks (fetchTasks respond s) \<noteq> JArr []"
proof -
  have "get_prop (JObj kv) ''results'' = Inr r"
    using assms(2) by simp
  from fetchTasks_success [where respond = respond and s = s, OF assms(1) this] assms(3)
  show ?thesis
    by (simp add: js_or_def)
qed

theorem fetchTasks_falsy_results_keeps_wrapper_witness:
  "tasks (fetchTasks replay empty_paged) = empty_page
   \<and> tasks (fetchTasks replay empty_paged) \<noteq> JArr []"
proof -
  have h1: "fst (replay (server empty_paged) (mk_request empty_paged GET TasksTasks JUndefined))
            = Inr (JObj [(''count'', JNum 0), (''next'', JNull), (''results'', JNull)])"
    by (simp add: empty_paged_def empty_page_def initial_def)
  have h2: "map_of [(''count'', JNum 0), (''next'', JNull), (''results'', JNull)] ''results''
            = Some JNull"
    by simp
  have h3: "\<not> truthy JNull"
    by simp
  show ?thesis
    unfolding empty_page_def
    by (rule fetchTasks_falsy_results_keeps_wrapper
          [where respond = replay and s = empty_paged, OF h1 h2 h3])
qed

subsection \<open>Saving from the form\<close>

lemma handleSaveTask_rejected:
  assumes "fst (save_request respond taskData s) = Inl e"
  shows "showModal (handleSaveTask respond taskData s) = showModal s"
    and "editingTask (handleSaveTask respond taskData s) = editingTask s"
  using assms
  by (auto simp: handleSaveTask_def save_request_def axios_result console_error_def
      split: if_splits sum.splits prod.splits)

lemma handleSaveTask_accepted:
  assumes "fst (save_request respond taskData s) = Inr d"
  shows "\<not> showModal (handleSaveTask respond taskData s)"
    and "editingTask (handleSaveTask respond taskData s) = JNull"
  using assms
  by (auto simp: handleSaveTask_def fetchTasks_frame split: prod.splits)

text \<open>
  Claim C4, as stated, fails. The form is open on a task and the backend rejects the
  PUT request: after \<open>handleSaveTask\<close> the modal is still shown and the task being
  edited is still held.
\<close>

theorem handleSaveTask_closes_regardless_counterexample:
  "\<not> (\<not> showModal (handleSaveTask replay draft rejected_edit)
        \<and> editingTask (handleSaveTask replay draft rejected_edit) = JNull)"
  by (simp add: handleSaveTask_def save_request_def axios_result console_error_def
      rejected_edit_def initial_def T1_def)

text \<open>
  Claim C4, amended. For every form submission (create or edit mode), once the save
  request settles: if it succeeded, the modal is closed and the task being edited is
  cleared (the form is unmounted and its buffer discarded); if it failed, the modal
  flag and the task being edited are as before the submission.
\<close>

theorem handleSaveTask_closes_on_success:
  "(fst (save_request respond taskData s) = Inr d
      \<longrightarrow> \<not> showModal (handleSaveTask respond taskData s)
        \<and> editingTask (handleSaveTask respond taskData s) = JNull)
   \<and> (fst (save_request respond taskData s) = Inl e
      \<longrightarrow> showModal (handleSaveTask respond taskData s) = showModal s
        \<and> editingTask (handleSaveTask respond taskData s) = editingTask s)"
  using handleSaveTask_accepted [where respond = respond and s = s and taskData = taskData and d = d]
    handleSaveTask_rejected [where respond = respond and s = s and taskData = taskData and e = e]
  by simp

theorem handleSaveTask_closes_on_success_witness:
  "(\<not> showModal (handleSaveTask replay draft creating)
      \<and> editingTask (handleSaveTask replay draft creating) = JNull)
   \<and> (\<not> showModal (handleSaveTask replay draft editing)
      \<and> editingTask (handleSaveTask replay draft editing) = JNull)
   \<and> (showModal (handleSaveTask replay draft rejected_edit) = showModal rejected_edit
      \<and> editingTask (handleSaveTask replay draft rejected_edit) = editingTask rejected_edit)"
proof -
  have h1: "fst (save_request replay draft creating) = Inr T2"
    by (simp add: save_request_def axios_result creating_def initial_def)
  have h2: "fst (save_request replay draft editing) = Inr T1"
    by (simp add: save_request_def axios_result editing_def initial_def T1_def)
  have h3: "fst (save_request replay draft rejected_edit) = Inl AxiosError"
    by (simp add: save_request_def axios_result rejected_edit_def initial_def T1_def)
  show ?thesis
    using h1 h2 h3
      handleSaveTask_closes_on_success
        [where respond = replay and s = creating and taskData = draft and d = T2]
      handleSaveTask_closes_on_success
        [where respond = replay and s = editing and taskData = draft and d = T1]
      handleSaveTask_closes_on_success
        [where respond = replay and s = rejected_edit and taskData = draft and e = AxiosError]
    by simp
qed

subsection \<open>The daily plan\<close>

text \<open>
  Claim C5. After \<open>handleAiSuggestion\<close> the loading flag is cleared, whatever the
  outcome of the request. When the request fails, the stored suggestion is the fixed
  fallback message with \<open>estimated_hours = 0\<close>. When it succeeds, the stored
  suggestion is the data of the response, and for a response object (the backend's
  \<open>{plan, estimated_hours}\<close>) it is not absent: it is not \<open>null\<close> and it is
  rendered.
\<close>

theorem handleAiSuggestion_settles:
  "\<not> loading (handleAiSuggestion respond s)
   \<and> (fst (respond (server s) (mk_request s POST TasksAiDailyPlan JUndefined)) = Inl e
      \<longrightarrow> aiSuggestion (handleAiSuggestion respond s) =
            JObj [(''plan'', JStr ''Could not generate plan. Please try again later.''),
                  (''estimated_hours'', JNum 0)]
        \<and> truthy (aiSuggestion (handleAiSuggestion respond s)))
   \<and> (fst (respond (server s) (mk_request s POST TasksAiDailyPlan JUndefined)) = Inr d
      \<longrightarrow> aiSuggestion (handleAiSuggestion respond s) = d
        \<and> (is_record d \<longrightarrow> aiSuggestion (handleAiSuggestion respond s) \<noteq> JNull
                          \<and> truthy (aiSuggestion (handleAiSuggestion respond s))))"
proof -
  let ?out = "fst (respond (server s) (mk_request s POST TasksAiDailyPlan JUndefined))"
  have flag: "\<not> loading (handleAiSuggestion respond s)"
    by (simp add: handleAiSuggestion_def Let_def)
  have failure: "aiSuggestion (handleAiSuggestion respond s) = fallback_suggestion"
    if "?out = Inl e"
    using that by (simp add: handleAiSuggestion_def Let_def axios_result console_error_def)
  have success: "aiSuggestion (handleAiSuggestion respond s) = d"
    if "?out = Inr d"
    using that by (simp add: handleAiSuggestion_def Let_def axios_result)
  have shown: "d \<noteq> JNull \<and> truthy d" if "is_record d"
    using that by (cases d) (simp_all add: is_record_def)
  show ?thesis
    using flag failure success shown by (simp add: fallback_suggestion_def)
qed

theorem handleAiSuggestion_settles_witness:
  "(\<not> loading (handleAiSuggestion replay planned)
      \<and> aiSuggestion (handleAiSuggestion replay planned) = plan
      \<and> aiSuggestion (handleAiSuggestion replay planned) \<noteq> JNull
      \<and> truthy (aiSuggestion (handleAiSuggestion replay planned)))
   \<and> (\<not> loading (handleAiSuggestion replay unplanned)
      \<and> aiSuggestion (handleAiSuggestion replay unplanned) =
           JObj [(''plan'', JStr ''Could not generate plan. Please try again later.''),
                 (''estimated_hours'', JNum 0)]
      \<and> truthy (aiSuggestion (handleAiSuggestion replay unplanned)))"
proof -
  have h1: "fst (replay (server planned) (mk_request planned POST TasksAiDailyPlan JUndefined))
            = Inr plan"
    by (simp add: planned_def initial_def)
  have h2: "is_record plan"
    by (simp add: plan_def is_record_def)
  have h3: "fst (replay (server unplanned) (mk_request unplanned POST TasksAiDailyPlan JUndefined))
            = Inl AxiosError"
    by (simp add: unplanned_def initial_def)
  have answered:
    "\<not> loading (handleAiSuggestion replay planned)
      \<and> aiSuggestion (handleAiSuggestion replay planned) = plan
      \<and> aiSuggestion (handleAiSuggestion replay planned) \<noteq> JNull
      \<and> truthy (aiSuggestion (handleAiSuggestion replay planned))"
    using h1 h2 handleAiSuggestion_settles [where respond = replay and s = planned and d = plan]
    by blast
  have rejected:
    "\<not> loading (handleAiSuggestion replay unplanned)
      \<and> aiSuggestion (handleAiSuggestion replay unplanned) =
           JObj [(''plan'', JStr ''Could not generate plan. Please try again later.''),
                 (''estimated_hours'', JNum 0)]
      \<and> truthy (aiSuggestion (handleAiSuggestion replay unplanned))"
    using h3
      handleAiSuggestion_settles [where respond = replay and s = unplanned and e = AxiosError]
    by blast
  show ?thesis
    using answered rejected by blast
qed

text \<open>
  Claim C8. Dismissing the suggestion leaves it absent, and dismissing again leaves
  it absent and gives the state the first dismissal gave.
\<close>

theorem dismiss_idempotent:
  "aiSuggestion (dismiss s) = JNull
   \<and> aiSuggestion (dismiss (dismiss s)) = JNull
   \<and> dismiss (dismiss s) = dismiss s"
  by (simp add: dismiss_def)

subsection \<open>Logout\<close>

text \<open>
  Claim C6. From any state, \<open>handleLogout\<close> clears the session (the user and both
  stored tokens) and empties the task collection, with no question asked; what \<open>App\<close>
  then renders is the login form.
\<close>

theorem handleLogout_clears:
  "user (handleLogout s) = JNull
   \<and> localStorage (handleLogout s) ''accessToken'' = None
   \<and> localStorage (handleLogout s) ''refreshToken'' = None
   \<and> tasks (handleLogout s) = JArr []
   \<and> App (handleLogout s) = LoginForm"
  by (simp add: handleLogout_def App_def)

subsection \<open>Deleting asks first\<close>

text \<open>
  Claim C7. When the confirmation is declined, \<open>handleDeleteTask\<close> leaves the state
  as it is: no request is sent and the task collection is unchanged. When it is
  accepted, the DELETE request for the task is the first request sent.
\<close>

theorem handleDeleteTask_asks_first:
  "handleDeleteTask respond False taskId s = s
   \<and> sent (handleDeleteTask respond False taskId s) = sent s
   \<and> tasks (handleDeleteTask respond False taskId s) = tasks s
   \<and> (\<exists>later. sent (handleDeleteTask respond True taskId s) =
         sent s @ mk_request s DELETE (TasksTasksId taskId) JUndefined # later)"
proof -
  have declined: "handleDeleteTask respond False taskId s = s"
    by (simp add: handleDeleteTask_def)
  have accepted: "\<exists>later. sent (handleDeleteTask respond True taskId s) =
      sent s @ mk_request s DELETE (TasksTasksId taskId) JUndefined # later"
    by (auto simp: handleDeleteTask_def fetchTasks_def axios_result console_error_def
        split: sum.splits)
  show ?thesis
    using declined accepted by simp
qed

subsection \<open>The status badge\<close>

text \<open>
  Claim C10. For a status value that is none of the strings \<open>TO_DO\<close>,
  \<open>IN_PROGRESS\<close> and \<open>DONE\<close>, \<open>getStatusInfo\<close> returns the first option: the task
  is shown with the label \<open>To Do\<close> and its colour. The function has a result for
  every value.
\<close>

theorem getStatusInfo_falls_back:
  assumes "statusValue \<notin> {JStr ''TO_DO'', JStr ''IN_PROGRESS'', JStr ''DONE''}"
  shows "getStatusInfo statusValue =
           \<lparr>value' = ''TO_DO'', label = ''To Do'', color = ''#ffbe0b''\<rparr>"
proof -
  have "\<not> strict_eq (JStr v) statusValue" if "statusValue \<noteq> JStr v" for v
    using that by (cases statusValue) simp_all
  then show ?thesis
    using assms by (simp add: getStatusInfo_def statusOptions_def)
qed

theorem getStatusInfo_falls_back_witness:
  "JStr ''BLOCKED'' \<notin> {JStr ''TO_DO'', JStr ''IN_PROGRESS'', JStr ''DONE''}
   \<and> getStatusInfo (JStr ''BLOCKED'') =
        \<lparr>value' = ''TO_DO'', label = ''To Do'', color = ''#ffbe0b''\<rparr>"
proof -
  have h: "JStr ''BLOCKED'' \<notin> {JStr ''TO_DO'', JStr ''IN_PROGRESS'', JStr ''DONE''}"
    by simp
  show ?thesis
    using h getStatusInfo_falls_back [OF h] by simp
qed

end
